theory Spec2Isabelle
  imports Main "HOL-Library.Multiset"
begin

section \<open>Data model (src/backend/src/models)\<close>

text \<open>
  The enums of \<^verbatim>\<open>models/enums.py\<close>. Each member carries its string value, which the
  controllers print into error details.
\<close>

datatype AttendanceStatus = PRESENT | ABSENT | EXCLUDED

datatype JustificationStatus = PENDING | APPROVED | REJECTED

datatype NotificationType =
  JUSTIFICATION_SUBMITTED | JUSTIFICATION_REJECTED | JUSTIFICATION_APPROVED

fun AttendanceStatus_value :: "AttendanceStatus \<Rightarrow> string" where
  "AttendanceStatus_value PRESENT = ''present''"
| "AttendanceStatus_value ABSENT = ''absent''"
| "AttendanceStatus_value EXCLUDED = ''excluded''"

fun JustificationStatus_value :: "JustificationStatus \<Rightarrow> string" where
  "JustificationStatus_value PENDING = ''pending''"
| "JustificationStatus_value APPROVED = ''approved''"
| "JustificationStatus_value REJECTED = ''rejected''"

text \<open>
  The tables. Every SQLModel class is a record; the primary key and the columns the
  lifecycle controllers read or write are kept, with the table's initials in front of
  a column name that several tables share (\<open>id\<close>, \<open>status\<close>, \<open>module_id\<close>, ...).
  Timestamps (\<open>created_at\<close>, \<open>date_time\<close>) and the denormalised student name and
  e-mail of an enrollment are never read by a decision of the controllers and are left
  out. Python integers are unbounded: \<open>int\<close>.
\<close>

record AttendanceRecord =
  ar_id :: int
  ar_status :: AttendanceStatus
  ar_session_id :: int
  ar_module_id :: int
  ar_enrollement_id :: int
  ar_justification_id :: "int option"

record Enrollment =
  en_id :: int
  en_student_id :: int
  en_module_id :: int
  number_of_absences :: int
  number_of_absences_justified :: int
  is_excluded :: bool

record ClassSession =
  cs_id :: int
  session_code :: string
  room :: "string option"
  duration_minutes :: int
  is_active :: bool
  teacher_module_id :: int

record TeacherModules =
  tm_id :: int
  tm_teacher_id :: int
  tm_module_id :: int

record Module =
  mo_id :: int
  mo_name :: string
  mo_room :: "string option"

record Justification =
  ju_id :: int
  attendance_record_id :: int
  comment :: "string option"
  file_url :: "string option"
  ju_status :: JustificationStatus

record Student =
  st_id :: int
  st_user_id :: int

record Notification =
  no_id :: int
  no_user_id :: int
  no_title :: string
  no_message :: string
  no_type :: NotificationType
  is_read :: bool

text \<open>
  The database behind an ORM session: one list of rows per table, in table order.
  Teachers and users are only ever looked up by primary key, so their tables are the
  lists of their ids.
\<close>

record database =
  attendance_records :: "AttendanceRecord list"
  enrollments :: "Enrollment list"
  sessions :: "ClassSession list"
  teacher_modules :: "TeacherModules list"
  modules :: "Module list"
  justifications :: "Justification list"
  students :: "Student list"
  teachers :: "int list"
  users :: "int list"
  notifications :: "Notification list"

section \<open>Errors and strings\<close>

text \<open>
  \<open>HTTPException(status_code, detail)\<close> of FastAPI, and the \<open>AttributeError\<close> Python
  raises when a column is read from \<open>None\<close>. An operation returns its outcome
  (\<open>Inl\<close> the exception raised) together with the database as committed when it ends.
\<close>

datatype exn = HTTPException int string | AttributeError

type_synonym 'a outcome = "(exn + 'a) \<times> database"

definition HTTP_400_BAD_REQUEST :: int where "HTTP_400_BAD_REQUEST = 400"
definition HTTP_403_FORBIDDEN :: int where "HTTP_403_FORBIDDEN = 403"
definition HTTP_404_NOT_FOUND :: int where "HTTP_404_NOT_FOUND = 404"

text \<open>\<open>str(n)\<close> on integers, as an f-string formats an id.\<close>

function str_nat :: "nat \<Rightarrow> string" where
  "str_nat n =
     (if n < 10 then [char_of (48 + n)]
      else str_nat (n div 10) @ [char_of (48 + n mod 10)])"
  by pat_completeness auto
termination
  by (relation "measure id") auto

declare str_nat.simps [simp del]

definition str_int :: "int \<Rightarrow> string" where
  "str_int i = (if i < 0 then CHR ''-'' # str_nat (nat (- i)) else str_nat (nat i))"

text \<open>\<open>str.lower()\<close> on the ASCII letters.\<close>

definition lower_char :: "char \<Rightarrow> char" where
  "lower_char c =
     (if 65 \<le> (of_char c :: nat) \<and> (of_char c :: nat) \<le> 90
      then char_of ((of_char c :: nat) + 32) else c)"

definition lower :: "string \<Rightarrow> string" where
  "lower s = map lower_char s"

section \<open>Queries and writes of the ORM session\<close>

text \<open>
  \<open>session.get(Model, id)\<close> is the row with that primary key;
  \<open>select(Model).where(p).first()\<close> the first row satisfying \<open>p\<close>, \<open>.all()\<close> all of them.
  \<open>session.add(obj); session.commit()\<close> on a loaded object writes the row back under its
  primary key; on a new object it appends the row under the next id of the table's
  sequence.
\<close>

definition get_row :: "('a \<Rightarrow> int) \<Rightarrow> 'a list \<Rightarrow> int \<Rightarrow> 'a option" where
  "get_row key rows i = List.find (\<lambda>r. key r = i) rows"

definition put_row :: "('a \<Rightarrow> int) \<Rightarrow> 'a \<Rightarrow> 'a list \<Rightarrow> 'a list" where
  "put_row key obj rows = map (\<lambda>r. if key r = key obj then obj else r) rows"

definition next_id :: "int list \<Rightarrow> int" where
  "next_id ids = fold max ids 0 + 1"

section \<open>AttendanceController (controllers/attendance_controller.py)\<close>

definition get_attendance_by_id :: "database \<Rightarrow> int \<Rightarrow> exn + AttendanceRecord" where
  "get_attendance_by_id db attendance_id =
     (case get_row ar_id (attendance_records db) attendance_id of
        None \<Rightarrow> Inl (HTTPException HTTP_404_NOT_FOUND
                  (''Attendance record with ID '' @ str_int attendance_id @ '' not found''))
      | Some attendance \<Rightarrow> Inr attendance)"

fun valid_transitions :: "AttendanceStatus \<Rightarrow> AttendanceStatus list" where
  "valid_transitions ABSENT = [PRESENT, EXCLUDED]"
| "valid_transitions PRESENT = [ABSENT]"
| "valid_transitions EXCLUDED = [ABSENT]"

definition update_attendance_status ::
  "database \<Rightarrow> int \<Rightarrow> AttendanceStatus \<Rightarrow> AttendanceRecord outcome" where
  "update_attendance_status db attendance_id new_status =
     (case get_attendance_by_id db attendance_id of
        Inl e \<Rightarrow> (Inl e, db)
      | Inr attendance \<Rightarrow>
          if new_status \<notin> set (valid_transitions (ar_status attendance))
          then (Inl (HTTPException HTTP_400_BAD_REQUEST
                  (''Cannot change status from '' @ AttendanceStatus_value (ar_status attendance)
                   @ '' to '' @ AttendanceStatus_value new_status)), db)
          else
            let attendance' = attendance\<lparr>ar_status := new_status\<rparr>
            in (Inr attendance',
                db\<lparr>attendance_records := put_row ar_id attendance' (attendance_records db)\<rparr>))"


section \<open>Returned dictionaries\<close>

text \<open>
  A returned \<open>dict\<close> is an association list from its keys to Python values. The one
  float the controllers return, \<open>round((present / total * 100), 2)\<close>, is kept as the
  term \<open>RoundPct present total\<close>: its two integer operands, not a value of floating
  point arithmetic.
\<close>

datatype py_value =
  IntV int
| StrV string
| BoolV bool
| NoneV
| RoundPct int int
| DictV "(string \<times> py_value) list"
| ListV "py_value list"

definition opt_str :: "string option \<Rightarrow> py_value" where
  "opt_str s = (case s of None \<Rightarrow> NoneV | Some x \<Rightarrow> StrV x)"

section \<open>NotificationController (controllers/notification_controller.py)\<close>

definition create_notification ::
  "database \<Rightarrow> int \<Rightarrow> string \<Rightarrow> string \<Rightarrow> NotificationType \<Rightarrow> Notification outcome" where
  "create_notification db user_id title message notification_type =
     (if user_id \<notin> set (users db)
      then (Inl (HTTPException HTTP_404_NOT_FOUND
              (''User with ID '' @ str_int user_id @ '' not found'')), db)
      else
        let notification = \<lparr>no_id = next_id (map no_id (notifications db)),
              no_user_id = user_id, no_title = title, no_message = message,
              no_type = notification_type, is_read = False\<rparr>
        in (Inr notification, db\<lparr>notifications := notifications db @ [notification]\<rparr>))"

section \<open>SessionController (controllers/session_controller.py)\<close>

definition http :: "int \<Rightarrow> string \<Rightarrow> database \<Rightarrow> 'a outcome" where
  "http status_code detail db = (Inl (HTTPException status_code detail), db)"

definition mark_attendance :: "database \<Rightarrow> string \<Rightarrow> int \<Rightarrow> py_value outcome" where
  "mark_attendance db share_code student_id =
     (case List.find (\<lambda>s. session_code s = share_code) (sessions db) of
        None \<Rightarrow> http HTTP_404_NOT_FOUND ''Invalid code. Session not found.'' db
      | Some session_obj \<Rightarrow>
          if \<not> is_active session_obj
          then http HTTP_400_BAD_REQUEST ''Session is closed. Cannot mark attendance.'' db
          else
            (case get_row tm_id (teacher_modules db) (teacher_module_id session_obj) of
               None \<Rightarrow> http HTTP_404_NOT_FOUND ''Session module not found'' db
             | Some teacher_module \<Rightarrow>
                 (case List.find (\<lambda>e. en_student_id e = student_id
                                      \<and> en_module_id e = tm_module_id teacher_module)
                         (enrollments db) of
                    None \<Rightarrow> http HTTP_404_NOT_FOUND ''You are not enrolled in this module'' db
                  | Some enrollment \<Rightarrow>
                      if is_excluded enrollment
                      then http HTTP_403_FORBIDDEN ''You are excluded from this module'' db
                      else
                        (case List.find (\<lambda>a. ar_session_id a = cs_id session_obj
                                             \<and> ar_enrollement_id a = en_id enrollment)
                                (attendance_records db) of
                           None \<Rightarrow> http HTTP_404_NOT_FOUND ''Attendance record not found'' db
                         | Some attendance \<Rightarrow>
                             if ar_status attendance = PRESENT
                             then http HTTP_400_BAD_REQUEST
                                    ''Attendance already marked as present'' db
                             else
                               (Inr (DictV
                                  [(''message'', StrV ''Attendance marked successfully''),
                                   (''student_id'', IntV student_id),
                                   (''session_id'', IntV (cs_id session_obj)),
                                   (''status'', StrV ''PRESENT'')]),
                                db\<lparr>attendance_records :=
                                     put_row ar_id (attendance\<lparr>ar_status := PRESENT\<rparr>)
                                       (attendance_records db)\<rparr>)))))"

text \<open>
  The loop of \<open>close_session\<close> over the session's records: an \<open>ABSENT\<close> record
  increments \<open>number_of_absences\<close> of its enrollment, when that enrollment exists.
\<close>

fun increment_absences :: "AttendanceRecord list \<Rightarrow> Enrollment list \<Rightarrow> Enrollment list" where
  "increment_absences [] ens = ens"
| "increment_absences (record # records) ens =
     (if ar_status record = ABSENT
      then (case get_row en_id ens (ar_enrollement_id record) of
              Some enrollment \<Rightarrow>
                increment_absences records
                  (put_row en_id
                     (enrollment\<lparr>number_of_absences := number_of_absences enrollment + 1\<rparr>) ens)
            | None \<Rightarrow> increment_absences records ens)
      else increment_absences records ens)"

definition count_status :: "AttendanceStatus \<Rightarrow> AttendanceRecord list \<Rightarrow> int" where
  "count_status st records = int (length (filter (\<lambda>r. ar_status r = st) records))"

definition close_session :: "database \<Rightarrow> int \<Rightarrow> int \<Rightarrow> py_value outcome" where
  "close_session db session_id teacher_id =
     (case get_row cs_id (sessions db) session_id of
        None \<Rightarrow> http HTTP_404_NOT_FOUND
                  (''Session with ID '' @ str_int session_id @ '' not found'') db
      | Some session_obj \<Rightarrow>
          if \<not> is_active session_obj
          then http HTTP_400_BAD_REQUEST ''Session is already closed'' db
          else
            (case get_row tm_id (teacher_modules db) (teacher_module_id session_obj) of
               None \<Rightarrow> (Inl AttributeError, db)
             | Some teacher_module \<Rightarrow>
                 if tm_teacher_id teacher_module \<noteq> teacher_id
                 then http HTTP_403_FORBIDDEN
                        ''You don't have permission to close this session'' db
                 else
                   let db1 = db\<lparr>sessions :=
                               put_row cs_id (session_obj\<lparr>is_active := False\<rparr>) (sessions db)\<rparr>;
                       records = filter (\<lambda>r. ar_session_id r = session_id)
                                   (attendance_records db1);
                       db2 = db1\<lparr>enrollments := increment_absences records (enrollments db1)\<rparr>;
                       present = count_status PRESENT records;
                       absent = count_status ABSENT records;
                       total = int (length records)
                   in (Inr (DictV
                         [(''session_id'', IntV session_id),
                          (''is_active'', BoolV False),
                          (''message'', StrV ''Session closed''),
                          (''statistics'', DictV
                             [(''total_students'', IntV total),
                              (''present'', IntV present),
                              (''absent'', IntV absent),
                              (''attendance_rate'',
                                 if total > 0 then RoundPct present total else IntV 0)])]),
                       db2)))"

section \<open>JustificationController (controllers/justification_controller.py)\<close>

definition get_justification_by_id :: "database \<Rightarrow> int \<Rightarrow> exn + Justification" where
  "get_justification_by_id db justification_id =
     (case get_row ju_id (justifications db) justification_id of
        None \<Rightarrow> Inl (HTTPException HTTP_404_NOT_FOUND
                  (''Justification with ID '' @ str_int justification_id @ '' not found''))
      | Some justification \<Rightarrow> Inr justification)"

text \<open>
  The notification both \<open>approve\<close> and \<open>reject\<close> send after their commit: the user is
  reached through attendance record, enrollment and student, and nothing is sent when
  one of them is missing. \<open>create_notification\<close> raises when the user is.
\<close>

definition notify_decision ::
  "database \<Rightarrow> Justification \<Rightarrow> string \<Rightarrow> string \<Rightarrow> NotificationType \<Rightarrow> Justification outcome"
  where
  "notify_decision db justification title verb notification_type =
     (case get_row ar_id (attendance_records db) (attendance_record_id justification) of
        None \<Rightarrow> (Inr justification, db)
      | Some attendance_record \<Rightarrow>
          (case get_row en_id (enrollments db) (ar_enrollement_id attendance_record) of
             None \<Rightarrow> (Inr justification, db)
           | Some enrollment \<Rightarrow>
               (case get_row st_id (students db) (en_student_id enrollment) of
                  None \<Rightarrow> (Inr justification, db)
                | Some student \<Rightarrow>
                    (case create_notification db (st_user_id student) title
                            (''Your justification for attendance record #''
                             @ str_int (attendance_record_id justification)
                             @ '' has been '' @ verb @ ''.'')
                            notification_type of
                       (Inl e, db') \<Rightarrow> (Inl e, db')
                     | (Inr n, db') \<Rightarrow> (Inr justification, db')))))"

definition decide ::
  "database \<Rightarrow> int \<Rightarrow> JustificationStatus \<Rightarrow> string \<Rightarrow> string \<Rightarrow> NotificationType
     \<Rightarrow> Justification outcome" where
  "decide db justification_id new_status title verb notification_type =
     (case get_justification_by_id db justification_id of
        Inl e \<Rightarrow> (Inl e, db)
      | Inr justification \<Rightarrow>
          if ju_status justification \<noteq> PENDING
          then http HTTP_400_BAD_REQUEST
                 (''Justification has already been ''
                  @ lower (JustificationStatus_value (ju_status justification))) db
          else
            let justification' = justification\<lparr>ju_status := new_status\<rparr>;
                db' = db\<lparr>justifications := put_row ju_id justification' (justifications db)\<rparr>
            in notify_decision db' justification' title verb notification_type)"

definition approve :: "database \<Rightarrow> int \<Rightarrow> Justification outcome" where
  "approve db justification_id =
     decide db justification_id APPROVED ''Justification Approved'' ''approved''
       JUSTIFICATION_APPROVED"

definition reject :: "database \<Rightarrow> int \<Rightarrow> Justification outcome" where
  "reject db justification_id =
     decide db justification_id REJECTED ''Justification Rejected'' ''rejected''
       JUSTIFICATION_REJECTED"

section \<open>TeacherController (controllers/teacher_controller.py)\<close>

definition verify_teacher_owns_session :: "database \<Rightarrow> ClassSession \<Rightarrow> int \<Rightarrow> bool" where
  "verify_teacher_owns_session db session_obj teacher_id =
     (case get_row tm_id (teacher_modules db) (teacher_module_id session_obj) of
        None \<Rightarrow> False
      | Some teacher_module \<Rightarrow> tm_teacher_id teacher_module = teacher_id)"

text \<open>
  The loop of \<open>create_session\<close>: one \<open>ABSENT\<close> record per enrollment, each committed
  (and so given its id) before the next; the second component collects the
  dictionaries of the response.
\<close>

fun create_records ::
  "int \<Rightarrow> int \<Rightarrow> Enrollment list \<Rightarrow> AttendanceRecord list
     \<Rightarrow> AttendanceRecord list \<times> py_value list" where
  "create_records session_id module_id [] table = (table, [])"
| "create_records session_id module_id (enrollment # rest) table =
     (let attendance = \<lparr>ar_id = next_id (map ar_id table), ar_status = ABSENT,
            ar_session_id = session_id, ar_module_id = module_id,
            ar_enrollement_id = en_id enrollment, ar_justification_id = None\<rparr>;
          (table', dicts) =
            create_records session_id module_id rest (table @ [attendance])
      in (table',
          DictV [(''attendance_id'', IntV (ar_id attendance)),
                 (''student_id'', IntV (en_student_id enrollment)),
                 (''enrollment_id'', IntV (en_id enrollment)),
                 (''number_of_absences'', IntV (number_of_absences enrollment)),
                 (''number_of_absences_justified'',
                    IntV (number_of_absences_justified enrollment)),
                 (''is_excluded'', BoolV (is_excluded enrollment)),
                 (''status'', StrV (AttendanceStatus_value ABSENT))] # dicts))"

text \<open>
  \<open>create_session\<close>. The share code comes from \<open>uuid.uuid4()\<close>; it is the parameter
  \<open>share_code\<close> here.
\<close>

definition create_session ::
  "database \<Rightarrow> int \<Rightarrow> int \<Rightarrow> int \<Rightarrow> string option \<Rightarrow> string \<Rightarrow> py_value outcome" where
  "create_session db teacher_id module_id duration room_arg share_code =
     (if teacher_id \<notin> set (teachers db)
      then http HTTP_404_NOT_FOUND (''Teacher with ID '' @ str_int teacher_id @ '' not found'') db
      else
        (case get_row mo_id (modules db) module_id of
           None \<Rightarrow> http HTTP_404_NOT_FOUND
                     (''Module with ID '' @ str_int module_id @ '' not found'') db
         | Some module \<Rightarrow>
             (case List.find (\<lambda>tm. tm_teacher_id tm = teacher_id \<and> tm_module_id tm = module_id)
                     (teacher_modules db) of
                None \<Rightarrow> http HTTP_403_FORBIDDEN ''Teacher is not assigned to this module'' db
              | Some teacher_module \<Rightarrow>
                  let session_room =
                        (case room_arg of
                           None \<Rightarrow> mo_room module
                         | Some r \<Rightarrow> if r = [] then mo_room module else Some r);
                      new_session = \<lparr>cs_id = next_id (map cs_id (sessions db)),
                        session_code = share_code, room = session_room,
                        duration_minutes = duration, is_active = True,
                        teacher_module_id = tm_id teacher_module\<rparr>;
                      db1 = db\<lparr>sessions := sessions db @ [new_session]\<rparr>;
                      enrolled = filter (\<lambda>e. en_module_id e = module_id \<and> is_excluded e = False)
                                   (enrollments db1);
                      (table', dicts) =
                        create_records (cs_id new_session) module_id enrolled
                          (attendance_records db1)
                  in (Inr (DictV
                        [(''success'', BoolV True),
                         (''session_id'', IntV (cs_id new_session)),
                         (''module_id'', IntV module_id),
                         (''module_name'', StrV (mo_name module)),
                         (''teacher_id'', IntV teacher_id),
                         (''share_code'', StrV share_code),
                         (''duration_minutes'', IntV duration),
                         (''room'', opt_str session_room),
                         (''is_active'', BoolV True),
                         (''students_enrolled'', IntV (int (length dicts))),
                         (''attendance_records'', ListV dicts)]),
                      db1\<lparr>attendance_records := table'\<rparr>))))"

text \<open>\<open>TeacherController.close_session\<close>, the one the route \<open>/sessions/{id}/close\<close> calls.\<close>

definition teacher_close_session :: "database \<Rightarrow> int \<Rightarrow> int \<Rightarrow> py_value outcome" where
  "teacher_close_session db session_id teacher_id =
     (case get_row cs_id (sessions db) session_id of
        None \<Rightarrow> http HTTP_404_NOT_FOUND
                  (''Session with ID '' @ str_int session_id @ '' not found'') db
      | Some session_obj \<Rightarrow>
          if \<not> verify_teacher_owns_session db session_obj teacher_id
          then http HTTP_403_FORBIDDEN ''You do not have permission to close this session'' db
          else if \<not> is_active session_obj
          then http HTTP_400_BAD_REQUEST ''Session is already closed'' db
          else
            (Inr (DictV [(''success'', BoolV True),
                         (''message'', StrV ''Session closed successfully''),
                         (''session_id'', IntV session_id),
                         (''is_active'', BoolV False)]),
             db\<lparr>sessions := put_row cs_id (session_obj\<lparr>is_active := False\<rparr>) (sessions db)\<rparr>))"

text \<open>
  \<open>validate_justification\<close>. After the decision the source only reads (student, module
  and session details for the response, each read guarded against \<open>None\<close>); the
  response keeps the justification and the attendance record.
\<close>

definition validate_justification ::
  "database \<Rightarrow> int \<Rightarrow> int \<Rightarrow> string \<Rightarrow> py_value outcome" where
  "validate_justification db justification_id teacher_id decision =
     (let decision_lower = lower decision in
      if decision_lower \<notin> set [''approve'', ''reject'']
      then http HTTP_400_BAD_REQUEST
             (''Decision must be 'approve' or 'reject'' @ [CHR 0x27]) db
      else
        (case get_row ju_id (justifications db) justification_id of
           None \<Rightarrow> http HTTP_404_NOT_FOUND
                     (''Justification with ID '' @ str_int justification_id @ '' not found'') db
         | Some justification \<Rightarrow>
             if ju_status justification \<noteq> PENDING
             then http HTTP_400_BAD_REQUEST
                    (''Justification has already been ''
                     @ JustificationStatus_value (ju_status justification)) db
             else
               (case get_row ar_id (attendance_records db) (attendance_record_id justification) of
                  None \<Rightarrow> http HTTP_404_NOT_FOUND
                            ''Attendance record not found for this justification'' db
                | Some attendance_record \<Rightarrow>
                    (case get_row cs_id (sessions db) (ar_session_id attendance_record) of
                       None \<Rightarrow> http HTTP_404_NOT_FOUND
                                 ''Session not found for this attendance record'' db
                     | Some session_obj \<Rightarrow>
                         if \<not> verify_teacher_owns_session db session_obj teacher_id
                         then http HTTP_403_FORBIDDEN
                                ''You do not have permission to validate this justification'' db
                         else
                           (case (if decision_lower = ''approve''
                                  then (case approve db justification_id of
                                          (Inl e, db') \<Rightarrow> (Inl e, db')
                                        | (Inr j, db') \<Rightarrow>
                                            let attendance_record' =
                                                  attendance_record\<lparr>ar_status := PRESENT\<rparr>
                                            in (Inr (j, attendance_record'),
                                                db'\<lparr>attendance_records :=
                                                  put_row ar_id attendance_record'
                                                    (attendance_records db')\<rparr>))
                                  else (case reject db justification_id of
                                          (Inl e, db') \<Rightarrow> (Inl e, db')
                                        | (Inr j, db') \<Rightarrow> (Inr (j, attendance_record), db'))) of
                              (Inl e, db') \<Rightarrow> (Inl e, db')
                            | (Inr (updated_justification, attendance_record'), db') \<Rightarrow>
                                (Inr (DictV
                                   [(''success'', BoolV True),
                                    (''message'', StrV (''Justification has been ''
                                        @ decision_lower @ ''d successfully'')),
                                    (''justification'', DictV
                                       [(''id'', IntV (ju_id updated_justification)),
                                        (''comment'', opt_str (comment updated_justification)),
                                        (''file_url'', opt_str (file_url updated_justification)),
                                        (''status'', StrV (JustificationStatus_value
                                            (ju_status updated_justification)))]),
                                    (''attendance_record'', DictV
                                       [(''attendance_id'', IntV (ar_id attendance_record')),
                                        (''status'', StrV (AttendanceStatus_value
                                            (ar_status attendance_record')))])]),
                                 db'))))))"

section \<open>EnrollmentController (controllers/enrollment_controller.py)\<close>

definition get_enrollment_by_id :: "database \<Rightarrow> int \<Rightarrow> exn + Enrollment" where
  "get_enrollment_by_id db enrollment_id =
     (case get_row en_id (enrollments db) enrollment_id of
        None \<Rightarrow> Inl (HTTPException HTTP_404_NOT_FOUND
                  (''Enrollment with ID '' @ str_int enrollment_id @ '' not found''))
      | Some enrollment \<Rightarrow> Inr enrollment)"

text \<open>
  The loop of \<open>make_excluded_from_module\<close> writes \<open>EXCLUDED\<close> into every record the
  query selected (those of the enrollment that are \<open>ABSENT\<close>).
\<close>

fun exclude_records :: "AttendanceRecord list \<Rightarrow> AttendanceRecord list \<Rightarrow> AttendanceRecord list"
  where
  "exclude_records [] table = table"
| "exclude_records (record # records) table =
     exclude_records records (put_row ar_id (record\<lparr>ar_status := EXCLUDED\<rparr>) table)"

definition make_excluded_from_module :: "database \<Rightarrow> int \<Rightarrow> Enrollment outcome" where
  "make_excluded_from_module db enrollment_id =
     (case get_enrollment_by_id db enrollment_id of
        Inl e \<Rightarrow> (Inl e, db)
      | Inr enrollment \<Rightarrow>
          if is_excluded enrollment
          then http HTTP_400_BAD_REQUEST ''Student is already excluded from this module'' db
          else
            let enrollment' = enrollment\<lparr>is_excluded := True\<rparr>;
                selected = filter (\<lambda>r. ar_enrollement_id r = enrollment_id \<and> ar_status r = ABSENT)
                             (attendance_records db)
            in (Inr enrollment',
                db\<lparr>enrollments := put_row en_id enrollment' (enrollments db),
                   attendance_records := exclude_records selected (attendance_records db)\<rparr>))"




section \<open>StudentController (controllers/student_controller.py)\<close>

definition get_student_by_id :: "database \<Rightarrow> int \<Rightarrow> exn + Student" where
  "get_student_by_id db student_id =
     (case get_row st_id (students db) student_id of
        None \<Rightarrow> Inl (HTTPException HTTP_404_NOT_FOUND
                  (''Student with ID '' @ str_int student_id @ '' not found''))
      | Some student \<Rightarrow> Inr student)"

definition justify_absence ::
  "database \<Rightarrow> int \<Rightarrow> int \<Rightarrow> string \<Rightarrow> string option \<Rightarrow> Justification outcome" where
  "justify_absence db student_id attendance_id comment_arg file_url_arg =
     (case get_student_by_id db student_id of
        Inl e \<Rightarrow> (Inl e, db)
      | Inr student \<Rightarrow>
          (case get_row ar_id (attendance_records db) attendance_id of
             None \<Rightarrow> http HTTP_404_NOT_FOUND
                       (''Attendance record with ID '' @ str_int attendance_id @ '' not found'') db
           | Some attendance \<Rightarrow>
               if (case get_row en_id (enrollments db) (ar_enrollement_id attendance) of
                     None \<Rightarrow> True
                   | Some enrollment \<Rightarrow> en_student_id enrollment \<noteq> student_id)
               then http HTTP_403_FORBIDDEN ''This attendance record does not belong to you'' db
               else if ar_status attendance \<noteq> ABSENT
               then http HTTP_400_BAD_REQUEST ''Can only justify absences'' db
               else
                 (case List.find (\<lambda>j. attendance_record_id j = attendance_id)
                         (justifications db) of
                    Some existing \<Rightarrow>
                      http HTTP_400_BAD_REQUEST
                        ''A justification already exists for this absence'' db
                  | None \<Rightarrow>
                      let justification = \<lparr>ju_id = next_id (map ju_id (justifications db)),
                            attendance_record_id = attendance_id,
                            comment = Some comment_arg, file_url = file_url_arg,
                            ju_status = PENDING\<rparr>;
                          attendance' =
                            attendance\<lparr>ar_justification_id := Some (ju_id justification)\<rparr>;
                          db' = db\<lparr>justifications := justifications db @ [justification],
                                   attendance_records :=
                                     put_row ar_id attendance' (attendance_records db)\<rparr>
                      in (case create_notification db' (st_user_id student)
                                 ''Justification Submitted''
                                 (''Your justification for attendance record #''
                                  @ str_int attendance_id
                                  @ '' has been submitted and is pending review.'')
                                 JUSTIFICATION_SUBMITTED of
                            (Inl e, db'') \<Rightarrow> (Inl e, db'')
                          | (Inr n, db'') \<Rightarrow> (Inr justification, db'')))))"

text \<open>
  \<open>StudentController.mark_attendance\<close>, the one the route \<open>/attendance/mark\<close> calls. Its
  first query joins the session with its module assignment and module: the first
  session with that code for which both exist.
\<close>

definition session_module :: "database \<Rightarrow> ClassSession \<Rightarrow> Module option" where
  "session_module db s =
     (case get_row tm_id (teacher_modules db) (teacher_module_id s) of
        None \<Rightarrow> None
      | Some tm \<Rightarrow> get_row mo_id (modules db) (tm_module_id tm))"

definition student_mark_attendance :: "database \<Rightarrow> int \<Rightarrow> string \<Rightarrow> py_value outcome" where
  "student_mark_attendance db student_id code =
     (case get_student_by_id db student_id of
        Inl e \<Rightarrow> (Inl e, db)
      | Inr student \<Rightarrow>
          (case List.find (\<lambda>s. session_code s = code \<and> session_module db s \<noteq> None)
                  (sessions db) of
             None \<Rightarrow> http HTTP_404_NOT_FOUND ''Invalid session code'' db
           | Some session_obj \<Rightarrow>
               (case session_module db session_obj of
                  None \<Rightarrow> http HTTP_404_NOT_FOUND ''Invalid session code'' db
                | Some module \<Rightarrow>
                    if \<not> is_active session_obj
                    then http HTTP_400_BAD_REQUEST
                           ''Session is closed. Cannot mark attendance.'' db
                    else if mo_id module = 0
                    then http HTTP_404_NOT_FOUND ''Module not found for this session'' db
                    else
                      (case List.find (\<lambda>e. en_student_id e = student_id
                                           \<and> en_module_id e = mo_id module)
                              (enrollments db) of
                         None \<Rightarrow> http HTTP_403_FORBIDDEN
                                   ''You are not enrolled in this module'' db
                       | Some enrollment \<Rightarrow>
                           if is_excluded enrollment
                           then http HTTP_403_FORBIDDEN ''You are excluded from this module'' db
                           else
                             (case List.find (\<lambda>a. ar_session_id a = cs_id session_obj
                                                  \<and> ar_enrollement_id a = en_id enrollment)
                                     (attendance_records db) of
                                None \<Rightarrow> http HTTP_404_NOT_FOUND
                                          ''No attendance record found for this session'' db
                              | Some attendance \<Rightarrow>
                                  if ar_status attendance = PRESENT
                                  then http HTTP_400_BAD_REQUEST
                                         ''Attendance already marked as present'' db
                                  else
                                    (Inr (DictV
                                       [(''attendance_id'', IntV (ar_id attendance)),
                                        (''status'', StrV (AttendanceStatus_value PRESENT)),
                                        (''module_id'', IntV (mo_id module)),
                                        (''module_name'',
                                           StrV (if mo_name module = [] then ''Unknown''
                                                 else mo_name module)),
                                        (''session_id'', IntV (cs_id session_obj)),
                                        (''session_code'', StrV (session_code session_obj)),
                                        (''enrollment_id'', IntV (en_id enrollment)),
                                        (''number_of_absences'',
                                           IntV (number_of_absences enrollment)),
                                        (''number_of_absences_justified'',
                                           IntV (number_of_absences_justified enrollment))]),
                                     db\<lparr>attendance_records :=
                                       put_row ar_id (attendance\<lparr>ar_status := PRESENT\<rparr>)
                                         (attendance_records db)\<rparr>))))))"

section \<open>A scenario database\<close>

text \<open>
  One module taught by teacher 1, with an open session whose share code is
  \<open>A1B2C3\<close>. Students 1 to 5 are enrolled, student 6 is enrolled and excluded,
  student 7 is not enrolled. Of the five attendance records of the session three are
  \<open>ABSENT\<close> and two \<open>PRESENT\<close>.
\<close>

definition scenario_record :: "int \<Rightarrow> AttendanceStatus \<Rightarrow> AttendanceRecord" where
  "scenario_record i st =
     \<lparr>ar_id = i, ar_status = st, ar_session_id = 1, ar_module_id = 1,
      ar_enrollement_id = i, ar_justification_id = None\<rparr>"

definition scenario_enrollment :: "int \<Rightarrow> bool \<Rightarrow> Enrollment" where
  "scenario_enrollment i excluded =
     \<lparr>en_id = i, en_student_id = i, en_module_id = 1, number_of_absences = 0,
      number_of_absences_justified = 0, is_excluded = excluded\<rparr>"

definition scenario_session :: ClassSession where
  "scenario_session =
     \<lparr>cs_id = 1, session_code = ''A1B2C3'', room = Some ''B12'', duration_minutes = 90,
      is_active = True, teacher_module_id = 1\<rparr>"

definition scenario_db :: database where
  "scenario_db =
     \<lparr>attendance_records =
        [scenario_record 1 ABSENT, scenario_record 2 ABSENT, scenario_record 3 ABSENT,
         scenario_record 4 PRESENT, scenario_record 5 PRESENT],
      enrollments =
        [scenario_enrollment 1 False, scenario_enrollment 2 False, scenario_enrollment 3 False,
         scenario_enrollment 4 False, scenario_enrollment 5 False, scenario_enrollment 6 True],
      sessions = [scenario_session],
      teacher_modules = [\<lparr>tm_id = 1, tm_teacher_id = 1, tm_module_id = 1\<rparr>],
      modules = [\<lparr>mo_id = 1, mo_name = ''Algorithms'', mo_room = Some ''B12''\<rparr>],
      justifications = [],
      students = map (\<lambda>i. \<lparr>st_id = i, st_user_id = 10 + i\<rparr>) [1, 2, 3, 4, 5, 6, 7],
      teachers = [1, 2],
      users = [11, 12, 13, 14, 15, 16, 17],
      notifications = []\<rparr>"

text \<open>The same module before any session was opened.\<close>

definition scenario_db_no_session :: database where
  "scenario_db_no_session = scenario_db\<lparr>attendance_records := [], sessions := []\<rparr>"

text \<open>The scenario after the session was closed.\<close>

definition scenario_db_closed :: database where
  "scenario_db_closed =
     scenario_db\<lparr>sessions := [scenario_session\<lparr>is_active := False\<rparr>]\<rparr>"

section \<open>Notions used to state the properties\<close>

text \<open>The number of \<open>ABSENT\<close> records in a list that belong to enrollment \<open>e\<close>.\<close>

definition absent_count :: "int \<Rightarrow> AttendanceRecord list \<Rightarrow> int" where
  "absent_count e records =
     int (length (filter (\<lambda>r. ar_status r = ABSENT \<and> ar_enrollement_id r = e) records))"

text \<open>
  The attendance record belongs to the student: its enrollment exists and is the
  student's (the ownership test of \<open>justify_absence\<close>).
\<close>

definition belongs_to :: "database \<Rightarrow> AttendanceRecord \<Rightarrow> int \<Rightarrow> bool" where
  "belongs_to db attendance student_id =
     (case get_row en_id (enrollments db) (ar_enrollement_id attendance) of
        None \<Rightarrow> False
      | Some enrollment \<Rightarrow> en_student_id enrollment = student_id)"

text \<open>
  The notification a decision sends can be created: the user of the record's student
  exists (as the foreign key of \<open>students.user_id\<close> demands), or the chain from the
  record to the student is broken and nothing is sent.
\<close>

definition notifiable :: "database \<Rightarrow> AttendanceRecord \<Rightarrow> bool" where
  "notifiable db attendance =
     (case get_row en_id (enrollments db) (ar_enrollement_id attendance) of
        None \<Rightarrow> True
      | Some enrollment \<Rightarrow>
          (case get_row st_id (students db) (en_student_id enrollment) of
             None \<Rightarrow> True
           | Some student \<Rightarrow> st_user_id student \<in> set (users db)))"

text \<open>The scenario after student 1 submitted a justification for record 1.\<close>

definition scenario_db_submitted :: database where
  "scenario_db_submitted = snd (justify_absence scenario_db 1 1 ''sick'' None)"


section \<open>Rows and ids\<close>

lemma get_row_Some: "get_row key rows i = Some r \<Longrightarrow> key r = i \<and> r \<in> set rows"
  unfolding get_row_def by (induction rows) (auto split: if_splits)

lemma get_row_put_row:
  "get_row key (put_row key obj rows) i =
     (if i = key obj then (case get_row key rows i of None \<Rightarrow> None | Some r \<Rightarrow> Some obj)
      else get_row key rows i)"
  unfolding get_row_def put_row_def by (induction rows) auto

lemma valid_transitions_table:
  "new_status \<in> set (valid_transitions st) \<longleftrightarrow>
     (st, new_status) \<in> {(ABSENT, PRESENT), (ABSENT, EXCLUDED), (PRESENT, ABSENT), (EXCLUDED, ABSENT)}"
  by (cases st; cases new_status) auto

section \<open>The attendance status state machine\<close>

text \<open>
  C1. For every attendance record and every requested status,
  \<open>update_attendance_status\<close> succeeds exactly when the pair (current, requested) is one
  of ABSENT to PRESENT, ABSENT to EXCLUDED, PRESENT to ABSENT, EXCLUDED to ABSENT. On
  success the record is returned and stored with the requested status. For every other
  pair (the self-transitions, PRESENT to EXCLUDED and EXCLUDED to PRESENT among them) it
  raises the invalid-transition error, HTTP 400 with a detail naming the source and the
  target status, and the database is unchanged.
\<close>

theorem update_attendance_status_allow_list:
  assumes "get_row ar_id (attendance_records db) attendance_id = Some attendance"
  shows "update_attendance_status db attendance_id new_status =
           (if (ar_status attendance, new_status)
                 \<in> {(ABSENT, PRESENT), (ABSENT, EXCLUDED), (PRESENT, ABSENT), (EXCLUDED, ABSENT)}
            then (Inr (attendance\<lparr>ar_status := new_status\<rparr>),
                  db\<lparr>attendance_records :=
                    put_row ar_id (attendance\<lparr>ar_status := new_status\<rparr>) (attendance_records db)\<rparr>)
            else (Inl (HTTPException 400
                    (''Cannot change status from '' @ AttendanceStatus_value (ar_status attendance)
                     @ '' to '' @ AttendanceStatus_value new_status)), db))
         \<and> get_row ar_id (put_row ar_id (attendance\<lparr>ar_status := new_status\<rparr>)
              (attendance_records db)) attendance_id = Some (attendance\<lparr>ar_status := new_status\<rparr>)"
proof -
  have k: "ar_id attendance = attendance_id"
    using get_row_Some [OF assms] by simp
  show ?thesis
    using assms k valid_transitions_table [of new_status "ar_status attendance"]
    by (simp add: update_attendance_status_def get_attendance_by_id_def get_row_put_row
        HTTP_400_BAD_REQUEST_def Let_def del: insert_iff)
qed

lemma scenario_get_record_1:
  "get_row ar_id (attendance_records scenario_db) 1 = Some (scenario_record 1 ABSENT)"
  by (simp add: scenario_db_def scenario_record_def get_row_def)

lemma scenario_get_record_4:
  "get_row ar_id (attendance_records scenario_db) 4 = Some (scenario_record 4 PRESENT)"
  by (simp add: scenario_db_def scenario_record_def get_row_def)

theorem update_attendance_status_allow_list_witness:
  "fst (update_attendance_status scenario_db 1 EXCLUDED) = Inr (scenario_record 1 EXCLUDED)
   \<and> update_attendance_status scenario_db 4 EXCLUDED =
       (Inl (HTTPException 400 ''Cannot change status from present to excluded''), scenario_db)"
  using update_attendance_status_allow_list [OF scenario_get_record_1, of EXCLUDED]
    update_attendance_status_allow_list [OF scenario_get_record_4, of EXCLUDED]
  by (simp add: scenario_record_def)

section \<open>Closing a session\<close>

lemma scenario_get_session:
  "get_row cs_id (sessions scenario_db) 1 = Some scenario_session"
  by (simp add: scenario_db_def scenario_session_def get_row_def)

lemma scenario_closed_get_session:
  "get_row cs_id (sessions scenario_db_closed) 1 = Some (scenario_session\<lparr>is_active := False\<rparr>)"
  by (simp add: scenario_db_closed_def scenario_session_def get_row_def)

text \<open>
  C3. For every session that is already closed, both \<open>close_session\<close> functions raise
  the invalid-state error (HTTP 400, "Session is already closed") and return the
  database as it was: no absence counter and no attendance record is touched.
  \<open>SessionController.close_session\<close> does so for every caller;
  \<open>TeacherController.close_session\<close> checks ownership first, so it raises that error
  for the teacher who owns the session (the one who could have closed it), and for any
  caller it leaves the database unchanged.
\<close>

theorem close_session_already_closed:
  assumes "get_row cs_id (sessions db) session_id = Some session_obj"
    and "\<not> is_active session_obj"
  shows "close_session db session_id teacher_id =
           (Inl (HTTPException 400 ''Session is already closed''), db)
         \<and> snd (teacher_close_session db session_id teacher_id) = db
         \<and> (verify_teacher_owns_session db session_obj teacher_id \<longrightarrow>
              teacher_close_session db session_id teacher_id =
                (Inl (HTTPException 400 ''Session is already closed''), db))"
  using assms
  by (simp add: close_session_def teacher_close_session_def http_def HTTP_400_BAD_REQUEST_def)

theorem close_session_already_closed_witness:
  "close_session scenario_db_closed 1 1 =
     (Inl (HTTPException 400 ''Session is already closed''), scenario_db_closed)
   \<and> teacher_close_session scenario_db_closed 1 1 =
     (Inl (HTTPException 400 ''Session is already closed''), scenario_db_closed)"
proof -
  have closed: "\<not> is_active (scenario_session\<lparr>is_active := False\<rparr>)" by simp
  have owns: "verify_teacher_owns_session scenario_db_closed (scenario_session\<lparr>is_active := False\<rparr>) 1"
    by (simp add: verify_teacher_owns_session_def scenario_db_closed_def scenario_db_def
        scenario_session_def get_row_def)
  show ?thesis
    using close_session_already_closed [OF scenario_closed_get_session closed, of 1] owns
    by simp
qed

text \<open>
  C10. A session closed through \<open>TeacherController.close_session\<close> (the function behind
  the route \<open>/sessions/{session_id}/close\<close>) changes nothing but the session row, whose
  active flag becomes false: the attendance records and the enrollments, absence
  counters included, are exactly as before the call.
\<close>

theorem teacher_close_session_frame:
  assumes "teacher_close_session db session_id teacher_id = (Inr r, db')"
  shows "attendance_records db' = attendance_records db
         \<and> enrollments db' = enrollments db
         \<and> (\<exists>session_obj. get_row cs_id (sessions db) session_id = Some session_obj
               \<and> is_active session_obj
               \<and> db' = db\<lparr>sessions :=
                    put_row cs_id (session_obj\<lparr>is_active := False\<rparr>) (sessions db)\<rparr>)"
  using assms
  by (auto simp: teacher_close_session_def http_def split: option.splits if_splits)

theorem teacher_close_session_frame_witness:
  "fst (teacher_close_session scenario_db 1 1) =
     Inr (DictV [(''success'', BoolV True), (''message'', StrV ''Session closed successfully''),
                 (''session_id'', IntV 1), (''is_active'', BoolV False)])
   \<and> attendance_records (snd (teacher_close_session scenario_db 1 1)) = attendance_records scenario_db
   \<and> enrollments (snd (teacher_close_session scenario_db 1 1)) = enrollments scenario_db"
proof -
  have run: "teacher_close_session scenario_db 1 1 =
      (Inr (DictV [(''success'', BoolV True), (''message'', StrV ''Session closed successfully''),
                 (''session_id'', IntV 1), (''is_active'', BoolV False)]),
       scenario_db\<lparr>sessions := [scenario_session\<lparr>is_active := False\<rparr>]\<rparr>)"
    by (simp add: teacher_close_session_def verify_teacher_owns_session_def scenario_db_def
        scenario_session_def get_row_def put_row_def)
  show ?thesis
    using teacher_close_session_frame [OF run] run by simp
qed

lemma absent_count_Nil [simp]: "absent_count e [] = 0"
  by (simp add: absent_count_def)

lemma absent_count_Cons [simp]:
  "absent_count e (r # rs) =
     (if ar_status r = ABSENT \<and> ar_enrollement_id r = e then 1 else 0) + absent_count e rs"
  by (simp add: absent_count_def)

lemma get_row_increment_absences:
  "get_row en_id (increment_absences recs ens) e =
     map_option (\<lambda>en. en\<lparr>number_of_absences := number_of_absences en + absent_count e recs\<rparr>)
       (get_row en_id ens e)"
proof (induction recs arbitrary: ens)
  case Nil
  show ?case by (cases "get_row en_id ens e") simp_all
next
  case (Cons rcd recs)
  show ?case
  proof (cases "ar_status rcd = ABSENT")
    case False
    then show ?thesis using Cons.IH [of ens] by simp
  next
    case absent: True
    show ?thesis
    proof (cases "get_row en_id ens (ar_enrollement_id rcd)")
      case None
      then have "e = ar_enrollement_id rcd \<Longrightarrow> get_row en_id ens e = None" by simp
      then show ?thesis using absent None Cons.IH [of ens]
        by (cases "e = ar_enrollement_id rcd") auto
    next
      case (Some enrollment)
      have k: "en_id enrollment = ar_enrollement_id rcd"
        using get_row_Some [OF Some] by simp
      show ?thesis
        using absent Some k
          Cons.IH [of "put_row en_id
            (enrollment\<lparr>number_of_absences := number_of_absences enrollment + 1\<rparr>) ens"]
        by (cases "get_row en_id ens e") (auto simp: get_row_put_row)
    qed
  qed
qed

text \<open>
  What \<open>SessionController.close_session\<close> does, for every open session closed by its
  teacher: the active flag of the session becomes false; the attendance records are
  unchanged; the absence counter of every enrollment grows by the number of \<open>ABSENT\<close>
  records the session holds for it (by exactly one for an enrollment with one \<open>ABSENT\<close>
  record, not at all for an enrollment whose record is \<open>PRESENT\<close> or \<open>EXCLUDED\<close>); and
  the statistics returned are the total, the present and the absent counts and the
  attendance rate \<open>round(present / total * 100, 2)\<close>, which is 0 when the session has no
  record.
\<close>

lemma close_session_effect:
  assumes "get_row cs_id (sessions db) session_id = Some session_obj"
    and "is_active session_obj"
    and "get_row tm_id (teacher_modules db) (teacher_module_id session_obj) = Some teacher_module"
    and "tm_teacher_id teacher_module = teacher_id"
  shows "fst (close_session db session_id teacher_id) =
           Inr (DictV
             [(''session_id'', IntV session_id),
              (''is_active'', BoolV False),
              (''message'', StrV ''Session closed''),
              (''statistics'', DictV
                 [(''total_students'',
                     IntV (int (length (filter (\<lambda>r. ar_session_id r = session_id)
                       (attendance_records db))))),
                  (''present'',
                     IntV (count_status PRESENT (filter (\<lambda>r. ar_session_id r = session_id)
                       (attendance_records db)))),
                  (''absent'',
                     IntV (count_status ABSENT (filter (\<lambda>r. ar_session_id r = session_id)
                       (attendance_records db)))),
                  (''attendance_rate'',
                     if filter (\<lambda>r. ar_session_id r = session_id) (attendance_records db) = []
                     then IntV 0
                     else RoundPct
                       (count_status PRESENT (filter (\<lambda>r. ar_session_id r = session_id)
                          (attendance_records db)))
                       (int (length (filter (\<lambda>r. ar_session_id r = session_id)
                          (attendance_records db)))))])])
         \<and> get_row cs_id (sessions (snd (close_session db session_id teacher_id))) session_id =
             Some (session_obj\<lparr>is_active := False\<rparr>)
         \<and> attendance_records (snd (close_session db session_id teacher_id)) = attendance_records db
         \<and> (\<forall>e. get_row en_id (enrollments (snd (close_session db session_id teacher_id))) e =
                map_option
                  (\<lambda>en. en\<lparr>number_of_absences := number_of_absences en
                     + absent_count e (filter (\<lambda>r. ar_session_id r = session_id)
                         (attendance_records db))\<rparr>)
                  (get_row en_id (enrollments db) e))"
proof -
  have k: "cs_id session_obj = session_id"
    using get_row_Some [OF assms(1)] by simp
  show ?thesis
    using assms k
    by (simp add: close_session_def Let_def get_row_put_row get_row_increment_absences)
qed


lemma scenario_get_teacher_module:
  "get_row tm_id (teacher_modules scenario_db) (teacher_module_id scenario_session) =
     Some \<lparr>tm_id = 1, tm_teacher_id = 1, tm_module_id = 1\<rparr>"
  by (simp add: scenario_db_def scenario_session_def get_row_def)

lemma scenario_session_records:
  "filter (\<lambda>r. ar_session_id r = 1) (attendance_records scenario_db) =
     attendance_records scenario_db"
  by (simp add: scenario_db_def scenario_record_def)

lemma close_session_scenario:
  "fst (close_session scenario_db 1 1) =
     Inr (DictV
       [(''session_id'', IntV 1), (''is_active'', BoolV False), (''message'', StrV ''Session closed''),
        (''statistics'', DictV
           [(''total_students'', IntV 5), (''present'', IntV 2), (''absent'', IntV 3),
            (''attendance_rate'', RoundPct 2 5)])])
   \<and> map (\<lambda>e. map_option number_of_absences
         (get_row en_id (enrollments (snd (close_session scenario_db 1 1))) e)) [1, 2, 3, 4, 5]
       = [Some 1, Some 1, Some 1, Some 0, Some 0]"
proof -
  have act: "is_active scenario_session" by (simp add: scenario_session_def)
  have own: "tm_teacher_id \<lparr>tm_id = 1, tm_teacher_id = 1, tm_module_id = 1\<rparr> = 1" by simp
  note eff = close_session_effect [OF scenario_get_session act scenario_get_teacher_module own]
  have en: "map (\<lambda>e. map_option number_of_absences (get_row en_id (enrollments scenario_db) e))
      [1, 2, 3, 4, 5] = [Some 0, Some 0, Some 0, Some 0, Some 0]"
    by (simp add: scenario_db_def scenario_enrollment_def get_row_def)
  have cnt: "map (\<lambda>e. absent_count e (attendance_records scenario_db)) [1, 2, 3, 4, 5]
      = [1, 1, 1, 0, 0]"
    by (simp add: scenario_db_def scenario_record_def)
  have st: "count_status PRESENT (attendance_records scenario_db) = 2"
    "count_status ABSENT (attendance_records scenario_db) = 3"
    "length (attendance_records scenario_db) = 5" "attendance_records scenario_db \<noteq> []"
    by (simp_all add: scenario_db_def scenario_record_def count_status_def)
  show ?thesis
    using eff en cnt st
    by (simp add: scenario_session_records option.map_comp comp_def)
qed

text \<open>
  C2. A successful close of an open session is to set the active flag to false and to
  increment, by exactly one, the absence counter of the enrollment of every record of
  the session that is still \<open>ABSENT\<close>. \<open>TeacherController.close_session\<close>, the close
  behind the route \<open>/sessions/{session_id}/close\<close>, does not: in the scenario (an open
  session with three \<open>ABSENT\<close> and two \<open>PRESENT\<close> records, every counter 0) the call by
  the teacher of the session succeeds and sets the flag to false, and every absence
  counter is still 0 afterwards. \<open>SessionController.close_session\<close> on the same input
  leaves the counters of the three absent students at 1 and the others at 0.
\<close>

theorem teacher_close_session_no_increment:
  "fst (teacher_close_session scenario_db 1 1) =
     Inr (DictV [(''success'', BoolV True), (''message'', StrV ''Session closed successfully''),
                 (''session_id'', IntV 1), (''is_active'', BoolV False)])
   \<and> map is_active (sessions (snd (teacher_close_session scenario_db 1 1))) = [False]
   \<and> map ar_status (attendance_records scenario_db) = [ABSENT, ABSENT, ABSENT, PRESENT, PRESENT]
   \<and> map number_of_absences (enrollments scenario_db) = [0, 0, 0, 0, 0, 0]
   \<and> map number_of_absences (enrollments (snd (teacher_close_session scenario_db 1 1)))
       = [0, 0, 0, 0, 0, 0]
   \<and> map number_of_absences (enrollments (snd (close_session scenario_db 1 1)))
       = [1, 1, 1, 0, 0, 0]"
  by (simp add: close_session_def teacher_close_session_def verify_teacher_owns_session_def
      scenario_db_def scenario_session_def scenario_record_def scenario_enrollment_def
      get_row_def put_row_def count_status_def Let_def)

section \<open>Opening a session\<close>

lemma create_records_fst:
  "\<exists>new. fst (create_records sid m ens table) = table @ new
     \<and> map ar_enrollement_id new = map en_id ens
     \<and> (\<forall>a\<in>set new. ar_status a = ABSENT \<and> ar_session_id a = sid \<and> ar_module_id a = m
           \<and> ar_justification_id a = None)"
proof (induction ens arbitrary: table)
  case Nil
  show ?case by simp
next
  case (Cons e ens)
  let ?a = "\<lparr>ar_id = next_id (map ar_id table), ar_status = ABSENT,
            ar_session_id = sid, ar_module_id = m,
            ar_enrollement_id = en_id e, ar_justification_id = None\<rparr>"
  from Cons.IH [of "table @ [?a]"] obtain new where
    n: "fst (create_records sid m ens (table @ [?a])) = (table @ [?a]) @ new"
       "map ar_enrollement_id new = map en_id ens"
       "\<forall>a\<in>set new. ar_status a = ABSENT \<and> ar_session_id a = sid \<and> ar_module_id a = m
           \<and> ar_justification_id a = None"
    by blast
  have "fst (create_records sid m (e # ens) table) = table @ (?a # new)"
    using n(1) by (simp add: Let_def case_prod_unfold)
  moreover have "map ar_enrollement_id (?a # new) = map en_id (e # ens)"
    using n(2) by simp
  moreover have "\<forall>a\<in>set (?a # new). ar_status a = ABSENT \<and> ar_session_id a = sid
      \<and> ar_module_id a = m \<and> ar_justification_id a = None"
    using n(3) by simp
  ultimately show ?case by blast
qed

lemma count_key_filter:
  "distinct (map k xs) \<Longrightarrow> e \<in> set xs \<Longrightarrow>
     length (filter (\<lambda>x. P x \<and> k x = k e) xs) = (if P e then 1 else 0)"
proof (induction xs)
  case Nil
  then show ?case by simp
next
  case (Cons x xs)
  show ?case
  proof (cases "e = x")
    case True
    have "\<forall>y\<in>set xs. k y \<noteq> k x" using Cons.prems(1) by (force simp: image_iff)
    then have "filter (\<lambda>y. P y \<and> k y = k x) xs = []"
      by (simp add: filter_empty_conv)
    then show ?thesis using True by simp
  next
    case False
    then have ex: "e \<in> set xs" using Cons.prems(2) by simp
    then have "k x \<noteq> k e" using Cons.prems(1) by force
    then show ?thesis using Cons.IH ex Cons.prems(1) by simp
  qed
qed

text \<open>
  C6. Every successful \<open>create_session\<close> appends to the attendance table one record
  per enrollment of the module that is not excluded, in the order of the enrollments,
  each \<open>ABSENT\<close> and attached to the new session; nothing else is appended. With
  enrollment ids unique (the primary key), every non-excluded enrollment of the module
  has exactly one of the new records and every other enrollment (the excluded ones in
  particular) has none. In the scenario, with five students enrolled and one more
  excluded, exactly five \<open>ABSENT\<close> records exist after the call.
\<close>

theorem create_session_records:
  assumes "create_session db teacher_id module_id duration room_arg share_code = (Inr r, db')"
  shows "\<exists>new. attendance_records db' = attendance_records db @ new
           \<and> map ar_enrollement_id new =
               map en_id (filter (\<lambda>e. en_module_id e = module_id \<and> \<not> is_excluded e)
                 (enrollments db))
           \<and> (\<forall>a\<in>set new. ar_status a = ABSENT
                 \<and> ar_session_id a = next_id (map cs_id (sessions db))
                 \<and> ar_module_id a = module_id)
           \<and> (distinct (map en_id (enrollments db)) \<longrightarrow>
                (\<forall>e\<in>set (enrollments db).
                   length (filter (\<lambda>a. ar_enrollement_id a = en_id e) new) =
                     (if en_module_id e = module_id \<and> \<not> is_excluded e then 1 else 0)))"
proof -
  let ?ens = "filter (\<lambda>e. en_module_id e = module_id \<and> \<not> is_excluded e) (enrollments db)"
  let ?sid = "next_id (map cs_id (sessions db))"
  have tbl: "attendance_records db' =
      fst (create_records ?sid module_id ?ens (attendance_records db))"
    using assms
    by (auto simp: create_session_def http_def Let_def split: if_splits option.splits prod.splits)
  from create_records_fst [of ?sid module_id ?ens "attendance_records db"] obtain new where
    n: "fst (create_records ?sid module_id ?ens (attendance_records db)) =
          attendance_records db @ new"
       "map ar_enrollement_id new = map en_id ?ens"
       "\<forall>a\<in>set new. ar_status a = ABSENT \<and> ar_session_id a = ?sid \<and> ar_module_id a = module_id
           \<and> ar_justification_id a = None"
    by blast
  have cnt: "length (filter (\<lambda>a. ar_enrollement_id a = en_id e) new) =
      (if en_module_id e = module_id \<and> \<not> is_excluded e then 1 else 0)"
    if d: "distinct (map en_id (enrollments db))" and e: "e \<in> set (enrollments db)" for e
  proof -
    have "length (filter (\<lambda>a. ar_enrollement_id a = en_id e) new) =
        length (filter (\<lambda>i. i = en_id e) (map ar_enrollement_id new))"
      by (simp add: comp_def)
    also have "\<dots> = length (filter (\<lambda>i. i = en_id e) (map en_id ?ens))"
      by (simp only: n(2))
    also have "\<dots> = length (filter (\<lambda>x. (en_module_id x = module_id \<and> \<not> is_excluded x)
        \<and> en_id x = en_id e) (enrollments db))"
      by (simp add: comp_def)
    also have "\<dots> = (if en_module_id e = module_id \<and> \<not> is_excluded e then 1 else 0)"
      by (rule count_key_filter [OF d e])
    finally show ?thesis .
  qed
  show ?thesis
    using tbl n cnt by (intro exI [of _ new]) auto
qed

lemma scenario_create_session:
  "snd (create_session scenario_db_no_session 1 1 90 None ''A1B2C3'') =
     scenario_db_no_session
       \<lparr>sessions := [scenario_session],
        attendance_records := map (\<lambda>i. scenario_record i ABSENT) [1, 2, 3, 4, 5]\<rparr>
   \<and> (\<exists>r. fst (create_session scenario_db_no_session 1 1 90 None ''A1B2C3'') = Inr r)"
  by (simp add: create_session_def scenario_db_no_session_def scenario_db_def
      scenario_enrollment_def scenario_session_def scenario_record_def get_row_def next_id_def
      Let_def)


theorem create_session_records_witness:
  "map ar_enrollement_id
     (attendance_records (snd (create_session scenario_db_no_session 1 1 90 None ''A1B2C3''))) =
     [1, 2, 3, 4, 5]
   \<and> length (filter (\<lambda>a. ar_status a = ABSENT)
        (attendance_records (snd (create_session scenario_db_no_session 1 1 90 None ''A1B2C3''))))
       = 5"
proof -
  let ?db' = "snd (create_session scenario_db_no_session 1 1 90 None ''A1B2C3'')"
  obtain r where r: "fst (create_session scenario_db_no_session 1 1 90 None ''A1B2C3'') = Inr r"
    using scenario_create_session by blast
  then have run: "create_session scenario_db_no_session 1 1 90 None ''A1B2C3'' = (Inr r, ?db')"
    by (metis prod.collapse)
  from create_session_records [OF run] obtain new where
    new: "attendance_records ?db' = attendance_records scenario_db_no_session @ new"
      "map ar_enrollement_id new =
         map en_id (filter (\<lambda>e. en_module_id e = 1 \<and> \<not> is_excluded e)
           (enrollments scenario_db_no_session))"
      "\<forall>a\<in>set new. ar_status a = ABSENT
          \<and> ar_session_id a = next_id (map cs_id (sessions scenario_db_no_session))
          \<and> ar_module_id a = 1"
    by blast
  have empty: "attendance_records scenario_db_no_session = []"
    by (simp add: scenario_db_no_session_def)
  have ids: "map en_id (filter (\<lambda>e. en_module_id e = 1 \<and> \<not> is_excluded e)
      (enrollments scenario_db_no_session)) = [1, 2, 3, 4, 5]"
    by (simp add: scenario_db_no_session_def scenario_db_def scenario_enrollment_def)
  have recs: "attendance_records ?db' = new"
    using new(1) empty by simp
  have m: "map ar_enrollement_id new = [1, 2, 3, 4, 5]"
    using new(2) ids by simp
  have "length new = 5"
    using arg_cong [OF m, of length] by simp
  moreover have "filter (\<lambda>a. ar_status a = ABSENT) new = new"
    using new(3) by (simp add: filter_id_conv)
  ultimately show ?thesis
    using recs m by simp
qed

section \<open>Excluding a student from a module\<close>

lemma exclude_records_map:
  "distinct (map ar_id sel) \<Longrightarrow>
     exclude_records sel table =
       map (\<lambda>r. case get_row ar_id sel (ar_id r) of
                  None \<Rightarrow> r | Some s \<Rightarrow> s\<lparr>ar_status := EXCLUDED\<rparr>) table"
proof (induction sel arbitrary: table)
  case Nil
  show ?case by (simp add: get_row_def)
next
  case (Cons s sel)
  have fresh: "get_row ar_id sel (ar_id s) = None"
    using Cons.prems by (force simp: get_row_def find_None_iff image_iff)
  show ?case
    using Cons.prems fresh Cons.IH [of "put_row ar_id (s\<lparr>ar_status := EXCLUDED\<rparr>) table"]
    by (auto simp: put_row_def get_row_def)
qed

lemma get_row_filter:
  "distinct (map key table) \<Longrightarrow> r \<in> set table \<Longrightarrow>
     get_row key (filter P table) (key r) = (if P r then Some r else None)"
proof (induction table)
  case Nil
  then show ?case by simp
next
  case (Cons x xs)
  show ?case
  proof (cases "r = x")
    case True
    have "\<forall>y\<in>set xs. key y \<noteq> key x" using Cons.prems(1) by (force simp: image_iff)
    then have "List.find (\<lambda>y. key y = key x) (filter P xs) = None"
      by (simp add: find_None_iff)
    then show ?thesis using True by (simp add: get_row_def)
  next
    case False
    then have ex: "r \<in> set xs" using Cons.prems(2) by simp
    then have "key x \<noteq> key r" using Cons.prems(1) by force
    then show ?thesis using Cons.IH ex Cons.prems(1) by (simp add: get_row_def)
  qed
qed

lemma exclude_selected:
  assumes "distinct (map ar_id table)"
  shows "exclude_records (filter P table) table =
           map (\<lambda>r. if P r then r\<lparr>ar_status := EXCLUDED\<rparr> else r) table"
proof -
  have d: "distinct (map ar_id (filter P table))"
    using assms by (simp add: distinct_map_filter)
  show ?thesis
    unfolding exclude_records_map [OF d]
    by (rule map_cong) (simp_all add: get_row_filter [OF assms])
qed

text \<open>
  C7. For every enrollment not yet excluded, \<open>make_excluded_from_module\<close> sets the
  exclusion flag and turns every \<open>ABSENT\<close> attendance record of that enrollment into
  \<open>EXCLUDED\<close>, leaving every other record (the \<open>PRESENT\<close> ones of the enrollment
  among them) as it was, so that afterwards no record of the enrollment is \<open>ABSENT\<close>.
  On an enrollment that is already excluded it raises the invalid-state error (HTTP
  400) and changes nothing. Attendance record ids are unique (the primary key).
\<close>

theorem make_excluded_from_module_effect:
  assumes "get_row en_id (enrollments db) enrollment_id = Some enrollment"
    and "distinct (map ar_id (attendance_records db))"
  shows "make_excluded_from_module db enrollment_id =
           (if is_excluded enrollment
            then (Inl (HTTPException 400 ''Student is already excluded from this module''), db)
            else (Inr (enrollment\<lparr>is_excluded := True\<rparr>),
                  db\<lparr>enrollments :=
                       put_row en_id (enrollment\<lparr>is_excluded := True\<rparr>) (enrollments db),
                     attendance_records :=
                       map (\<lambda>r. if ar_enrollement_id r = enrollment_id \<and> ar_status r = ABSENT
                                 then r\<lparr>ar_status := EXCLUDED\<rparr> else r)
                         (attendance_records db)\<rparr>))
         \<and> (\<not> is_excluded enrollment \<longrightarrow>
              get_row en_id (enrollments (snd (make_excluded_from_module db enrollment_id)))
                enrollment_id = Some (enrollment\<lparr>is_excluded := True\<rparr>)
              \<and> (\<forall>r\<in>set (attendance_records (snd (make_excluded_from_module db enrollment_id))).
                    ar_enrollement_id r = enrollment_id \<longrightarrow> ar_status r \<noteq> ABSENT))"
proof -
  have k: "en_id enrollment = enrollment_id"
    using get_row_Some [OF assms(1)] by simp
  have run: "make_excluded_from_module db enrollment_id =
           (if is_excluded enrollment
            then (Inl (HTTPException 400 ''Student is already excluded from this module''), db)
            else (Inr (enrollment\<lparr>is_excluded := True\<rparr>),
                  db\<lparr>enrollments :=
                       put_row en_id (enrollment\<lparr>is_excluded := True\<rparr>) (enrollments db),
                     attendance_records :=
                       map (\<lambda>r. if ar_enrollement_id r = enrollment_id \<and> ar_status r = ABSENT
                                 then r\<lparr>ar_status := EXCLUDED\<rparr> else r)
                         (attendance_records db)\<rparr>))"
    using assms(1)
    by (simp add: make_excluded_from_module_def get_enrollment_by_id_def http_def
        HTTP_400_BAD_REQUEST_def Let_def exclude_selected [OF assms(2)])
  show ?thesis
    unfolding run using assms(1) k by (auto simp: get_row_put_row)
qed

theorem make_excluded_from_module_effect_witness:
  "map ar_status (attendance_records (snd (make_excluded_from_module scenario_db 1))) =
     [EXCLUDED, ABSENT, ABSENT, PRESENT, PRESENT]
   \<and> map ar_status (attendance_records (snd (make_excluded_from_module scenario_db 4))) =
     [ABSENT, ABSENT, ABSENT, PRESENT, PRESENT]
   \<and> make_excluded_from_module scenario_db 6 =
     (Inl (HTTPException 400 ''Student is already excluded from this module''), scenario_db)"
proof -
  have d: "distinct (map ar_id (attendance_records scenario_db))"
    by (simp add: scenario_db_def scenario_record_def)
  have g: "get_row en_id (enrollments scenario_db) 1 = Some (scenario_enrollment 1 False)"
    "get_row en_id (enrollments scenario_db) 4 = Some (scenario_enrollment 4 False)"
    "get_row en_id (enrollments scenario_db) 6 = Some (scenario_enrollment 6 True)"
    by (simp_all add: scenario_db_def scenario_enrollment_def get_row_def)
  have st: "map (\<lambda>r. (ar_enrollement_id r, ar_status r)) (attendance_records scenario_db) =
      [(1, ABSENT), (2, ABSENT), (3, ABSENT), (4, PRESENT), (5, PRESENT)]"
    by (simp add: scenario_db_def scenario_record_def)
  have e: "\<not> is_excluded (scenario_enrollment 1 False)" "\<not> is_excluded (scenario_enrollment 4 False)"
    "is_excluded (scenario_enrollment 6 True)"
    by (simp_all add: scenario_enrollment_def)
  show ?thesis
    using make_excluded_from_module_effect [OF g(1) d]
      make_excluded_from_module_effect [OF g(2) d]
      make_excluded_from_module_effect [OF g(3) d] e
    by (simp add: scenario_db_def scenario_record_def)
qed

section \<open>Fresh ids\<close>

lemma fold_max_ge: "a \<le> fold max ids (a::int)"
  by (induction ids arbitrary: a) (auto intro: order_trans [OF max.cobounded2])

lemma fold_max_mem: "i \<in> set ids \<Longrightarrow> i \<le> fold max ids (a::int)"
proof (induction ids arbitrary: a)
  case Nil
  then show ?case by simp
next
  case (Cons x xs)
  show ?case
  proof (cases "i = x")
    case True
    have "x \<le> max x a" by simp
    also have "\<dots> \<le> fold max xs (max x a)" by (rule fold_max_ge)
    finally show ?thesis using True by simp
  next
    case False
    then show ?thesis using Cons by simp
  qed
qed

lemma next_id_fresh: "i \<in> set ids \<Longrightarrow> i < next_id ids"
  using fold_max_mem [of i ids 0] by (simp add: next_id_def)

lemma get_row_append_new:
  assumes "key obj = next_id (map key rows)"
  shows "get_row key (rows @ [obj]) (key obj) = Some obj"
proof -
  have "\<forall>r\<in>set rows. key r \<noteq> key obj"
    using next_id_fresh [of _ "map key rows"] assms by force
  then have "List.find (\<lambda>r. key r = key obj) rows = None"
    by (simp add: find_None_iff)
  then show ?thesis
    by (induction rows) (auto simp: get_row_def)
qed

lemma find_None_ex: "(List.find P xs = None) = (\<not> (\<exists>x\<in>set xs. P x))"
  by (auto simp: find_None_iff)

section \<open>Marking attendance\<close>

lemma find_SomeD: "List.find P xs = Some x \<Longrightarrow> x \<in> set xs \<and> P x"
  by (induction xs) (auto split: if_splits)

text \<open>
  C5 at the input that separates the code from the claim. Student 7 is not enrolled in
  the module of the open session \<open>A1B2C3\<close>. \<open>SessionController.mark_attendance\<close>
  raises HTTP 404 (not found) for that student, where the claim says Forbidden;
  \<open>StudentController.mark_attendance\<close>, the function behind the route
  \<open>/attendance/mark\<close>, raises HTTP 403 (forbidden) with the same detail.
\<close>

theorem mark_attendance_not_enrolled:
  "mark_attendance scenario_db ''A1B2C3'' 7 =
     (Inl (HTTPException 404 ''You are not enrolled in this module''), scenario_db)
   \<and> student_mark_attendance scenario_db 7 ''A1B2C3'' =
     (Inl (HTTPException 403 ''You are not enrolled in this module''), scenario_db)"
  by (simp add: mark_attendance_def student_mark_attendance_def get_student_by_id_def
      session_module_def http_def HTTP_404_NOT_FOUND_def HTTP_403_FORBIDDEN_def
      scenario_db_def scenario_session_def scenario_enrollment_def get_row_def)

text \<open>
  The rest of C5 on the scenario: student 1 marks attendance and the record becomes
  \<open>PRESENT\<close>; the same call again raises HTTP 400.
\<close>

lemma mark_attendance_twice:
  "fst (mark_attendance scenario_db ''A1B2C3'' 1) =
     Inr (DictV [(''message'', StrV ''Attendance marked successfully''), (''student_id'', IntV 1),
                 (''session_id'', IntV 1), (''status'', StrV ''PRESENT'')])
   \<and> map ar_status (attendance_records (snd (mark_attendance scenario_db ''A1B2C3'' 1))) =
       [PRESENT, ABSENT, ABSENT, PRESENT, PRESENT]
   \<and> fst (mark_attendance (snd (mark_attendance scenario_db ''A1B2C3'' 1)) ''A1B2C3'' 1) =
       Inl (HTTPException 400 ''Attendance already marked as present'')"
  by (simp add: mark_attendance_def http_def HTTP_400_BAD_REQUEST_def
      scenario_db_def scenario_session_def scenario_enrollment_def scenario_record_def
      get_row_def put_row_def)

section \<open>Submitting a justification\<close>

text \<open>
  C8, as the code has it. For a student (whose user exists) and an existing attendance
  record, \<open>justify_absence\<close>
  \<^item> raises HTTP 403 (forbidden), not the invalid-state error, when the record does not
    belong to the student;
  \<^item> raises HTTP 400 "Can only justify absences" when the record is the student's and
    is not \<open>ABSENT\<close>;
  \<^item> raises HTTP 400 "A justification already exists for this absence" when a
    justification for the record exists;
  \<^item> otherwise creates the justification as \<open>PENDING\<close> for that record and stores its
    id in the attendance record's \<open>justification_id\<close>.
  Each error leaves the database unchanged.
\<close>

theorem justify_absence_outcomes:
  assumes "get_row st_id (students db) student_id = Some student"
    and "get_row ar_id (attendance_records db) attendance_id = Some attendance"
    and "st_user_id student \<in> set (users db)"
  shows "(\<not> belongs_to db attendance student_id \<longrightarrow>
            justify_absence db student_id attendance_id c f =
              (Inl (HTTPException 403 ''This attendance record does not belong to you''), db))
       \<and> (belongs_to db attendance student_id \<and> ar_status attendance \<noteq> ABSENT \<longrightarrow>
            justify_absence db student_id attendance_id c f =
              (Inl (HTTPException 400 ''Can only justify absences''), db))
       \<and> (belongs_to db attendance student_id \<and> ar_status attendance = ABSENT
            \<and> (\<exists>j\<in>set (justifications db). attendance_record_id j = attendance_id) \<longrightarrow>
            justify_absence db student_id attendance_id c f =
              (Inl (HTTPException 400 ''A justification already exists for this absence''), db))
       \<and> (belongs_to db attendance student_id \<and> ar_status attendance = ABSENT
            \<and> \<not> (\<exists>j\<in>set (justifications db). attendance_record_id j = attendance_id) \<longrightarrow>
            (\<exists>j. fst (justify_absence db student_id attendance_id c f) = Inr j
               \<and> ju_status j = PENDING
               \<and> attendance_record_id j = attendance_id
               \<and> get_row ju_id
                    (justifications (snd (justify_absence db student_id attendance_id c f)))
                    (ju_id j) = Some j
               \<and> get_row ar_id
                    (attendance_records (snd (justify_absence db student_id attendance_id c f)))
                    attendance_id = Some (attendance\<lparr>ar_justification_id := Some (ju_id j)\<rparr>)))"
proof -
  have k: "ar_id attendance = attendance_id"
    using get_row_Some [OF assms(2)] by simp
  let ?j = "\<lparr>ju_id = next_id (map ju_id (justifications db)),
              attendance_record_id = attendance_id, comment = Some c, file_url = f,
              ju_status = PENDING\<rparr>"
  have new: "get_row ju_id (justifications db @ [?j]) (ju_id ?j) = Some ?j"
    by (rule get_row_append_new) simp
  show ?thesis
    using assms k new
    by (auto simp: justify_absence_def get_student_by_id_def belongs_to_def http_def
        create_notification_def HTTP_403_FORBIDDEN_def HTTP_400_BAD_REQUEST_def Let_def
        get_row_put_row find_None_ex
        split: option.splits dest: find_SomeD)
qed


lemma scenario_justify_absence:
  "justify_absence scenario_db 1 1 ''sick'' None =
     (Inr \<lparr>ju_id = 1, attendance_record_id = 1, comment = Some ''sick'', file_url = None,
           ju_status = PENDING\<rparr>,
      scenario_db
        \<lparr>justifications := [\<lparr>ju_id = 1, attendance_record_id = 1, comment = Some ''sick'',
             file_url = None, ju_status = PENDING\<rparr>],
         attendance_records :=
           [(scenario_record 1 ABSENT)\<lparr>ar_justification_id := Some 1\<rparr>,
            scenario_record 2 ABSENT, scenario_record 3 ABSENT,
            scenario_record 4 PRESENT, scenario_record 5 PRESENT],
         notifications :=
           [\<lparr>no_id = 1, no_user_id = 11, no_title = ''Justification Submitted'',
             no_message = ''Your justification for attendance record #''
               @ str_int 1 @ '' has been submitted and is pending review.'',
             no_type = JUSTIFICATION_SUBMITTED, is_read = False\<rparr>]\<rparr>)"
  by (simp add: justify_absence_def get_student_by_id_def create_notification_def http_def
      scenario_db_def scenario_record_def scenario_enrollment_def get_row_def put_row_def
      next_id_def Let_def)

theorem justify_absence_outcomes_witness:
  "fst (justify_absence scenario_db 1 1 ''sick'' None) =
     Inr \<lparr>ju_id = 1, attendance_record_id = 1, comment = Some ''sick'', file_url = None,
          ju_status = PENDING\<rparr>
   \<and> map ar_justification_id
       (attendance_records (snd (justify_absence scenario_db 1 1 ''sick'' None))) =
       [Some 1, None, None, None, None]
   \<and> justify_absence scenario_db 4 4 ''sick'' None =
       (Inl (HTTPException 400 ''Can only justify absences''), scenario_db)"
proof -
  have stu: "get_row st_id (students scenario_db) 1 = Some \<lparr>st_id = 1, st_user_id = 11\<rparr>"
    "get_row st_id (students scenario_db) 4 = Some \<lparr>st_id = 4, st_user_id = 14\<rparr>"
    by (simp_all add: scenario_db_def get_row_def)
  have usr: "st_user_id \<lparr>st_id = 1, st_user_id = 11\<rparr> \<in> set (users scenario_db)"
    "st_user_id \<lparr>st_id = 4, st_user_id = 14\<rparr> \<in> set (users scenario_db)"
    by (simp_all add: scenario_db_def)
  have own: "belongs_to scenario_db (scenario_record 4 PRESENT) 4"
    by (simp add: belongs_to_def scenario_db_def scenario_record_def scenario_enrollment_def
        get_row_def)
  have st: "ar_status (scenario_record 4 PRESENT) \<noteq> ABSENT"
    by (simp add: scenario_record_def)
  note t1 = justify_absence_outcomes [OF stu(1) scenario_get_record_1 usr(1), of "''sick''" None]
  note t4 = justify_absence_outcomes [OF stu(2) scenario_get_record_4 usr(2), of "''sick''" None]
  show ?thesis
    using t1 t4 own st
    by (simp add: scenario_justify_absence scenario_record_def)
qed

text \<open>
  C8 as stated fails: a record that is not the student's gives HTTP 403 (forbidden),
  not the HTTP 400 of an invalid state.
\<close>

theorem justify_absence_counterexample:
  "justify_absence scenario_db 7 1 ''sick'' None =
     (Inl (HTTPException 403 ''This attendance record does not belong to you''), scenario_db)
   \<and> HTTP_403_FORBIDDEN \<noteq> HTTP_400_BAD_REQUEST"
  by (simp add: justify_absence_def get_student_by_id_def http_def HTTP_403_FORBIDDEN_def
      HTTP_400_BAD_REQUEST_def scenario_db_def scenario_record_def scenario_enrollment_def
      get_row_def)

section \<open>Deciding a justification\<close>

lemma decide_pending:
  assumes "get_row ju_id (justifications db) jid = Some j"
    and "ju_status j = PENDING"
    and "get_row ar_id (attendance_records db) (attendance_record_id j) = Some a"
    and "notifiable db a"
  shows "\<exists>ns. decide db jid st title verb nt =
           (Inr (j\<lparr>ju_status := st\<rparr>),
            db\<lparr>justifications := put_row ju_id (j\<lparr>ju_status := st\<rparr>) (justifications db),
               notifications := ns\<rparr>)"
proof (cases "get_row en_id (enrollments db) (ar_enrollement_id a)")
  case None
  then show ?thesis
    using assms
    by (intro exI [of _ "notifications db"])
      (simp add: decide_def get_justification_by_id_def notify_decision_def Let_def)
next
  case (Some e)
  show ?thesis
  proof (cases "get_row st_id (students db) (en_student_id e)")
    case None
    then show ?thesis
      using assms Some
      by (intro exI [of _ "notifications db"])
        (simp add: decide_def get_justification_by_id_def notify_decision_def Let_def)
  next
    case (Some student)
    then show ?thesis
      using assms \<open>get_row en_id (enrollments db) (ar_enrollement_id a) = Some e\<close>
      by (auto simp: decide_def get_justification_by_id_def notify_decision_def Let_def
          create_notification_def notifiable_def)
  qed
qed

lemma validate_justification_approve:
  assumes "get_row ju_id (justifications db) jid = Some j"
    and "ju_status j = PENDING"
    and "get_row ar_id (attendance_records db) (attendance_record_id j) = Some a"
    and "get_row cs_id (sessions db) (ar_session_id a) = Some s"
    and "verify_teacher_owns_session db s tid"
    and "notifiable db a"
    and "lower d = ''approve''"
  shows "\<exists>r ns. validate_justification db jid tid d =
           (Inr r,
            db\<lparr>justifications := put_row ju_id (j\<lparr>ju_status := APPROVED\<rparr>) (justifications db),
               notifications := ns,
               attendance_records :=
                 put_row ar_id (a\<lparr>ar_status := PRESENT\<rparr>) (attendance_records db)\<rparr>)"
proof -
  from decide_pending [OF assms(1,2,3,6), of APPROVED "''Justification Approved''"
      "''approved''" JUSTIFICATION_APPROVED]
  obtain ns where "approve db jid =
      (Inr (j\<lparr>ju_status := APPROVED\<rparr>),
       db\<lparr>justifications := put_row ju_id (j\<lparr>ju_status := APPROVED\<rparr>) (justifications db),
          notifications := ns\<rparr>)"
    unfolding approve_def by blast
  then show ?thesis
    using assms by (auto simp: validate_justification_def Let_def)
qed

lemma validate_justification_reject:
  assumes "get_row ju_id (justifications db) jid = Some j"
    and "ju_status j = PENDING"
    and "get_row ar_id (attendance_records db) (attendance_record_id j) = Some a"
    and "get_row cs_id (sessions db) (ar_session_id a) = Some s"
    and "verify_teacher_owns_session db s tid"
    and "notifiable db a"
    and "lower d = ''reject''"
  shows "\<exists>r ns. validate_justification db jid tid d =
           (Inr r,
            db\<lparr>justifications := put_row ju_id (j\<lparr>ju_status := REJECTED\<rparr>) (justifications db),
               notifications := ns\<rparr>)"
proof -
  from decide_pending [OF assms(1,2,3,6), of REJECTED "''Justification Rejected''"
      "''rejected''" JUSTIFICATION_REJECTED]
  obtain ns where "reject db jid =
      (Inr (j\<lparr>ju_status := REJECTED\<rparr>),
       db\<lparr>justifications := put_row ju_id (j\<lparr>ju_status := REJECTED\<rparr>) (justifications db),
          notifications := ns\<rparr>)"
    unfolding reject_def by blast
  then show ?thesis
    using assms by (auto simp: validate_justification_def Let_def)
qed

lemma justify_absence_success:
  assumes "justify_absence db0 student_id attendance_id c f = (Inr j, db)"
  shows "ju_status j = PENDING \<and> attendance_record_id j = attendance_id
         \<and> (\<exists>a. get_row ar_id (attendance_records db) attendance_id = Some a
               \<and> ar_status a = ABSENT)"
proof -
  from assms obtain a0 where
    a0: "get_row ar_id (attendance_records db0) attendance_id = Some a0"
      "ar_status a0 = ABSENT"
    and j: "j = \<lparr>ju_id = next_id (map ju_id (justifications db0)),
              attendance_record_id = attendance_id, comment = Some c, file_url = f,
              ju_status = PENDING\<rparr>"
    and recs: "attendance_records db =
        put_row ar_id (a0\<lparr>ar_justification_id := Some (ju_id j)\<rparr>) (attendance_records db0)"
    by (auto simp: justify_absence_def get_student_by_id_def http_def create_notification_def
        Let_def split: option.splits if_splits sum.splits prod.splits)
  have k: "ar_id a0 = attendance_id"
    using get_row_Some [OF a0(1)] by simp
  show ?thesis
    using a0 j k by (simp add: recs get_row_put_row)
qed

text \<open>
  C4. For every justification in \<open>PENDING\<close> whose attendance record and session exist,
  decided by the teacher who owns the session: \<open>validate_justification\<close> with the decision
  "approve" (in any letter case) succeeds, stores the justification as \<open>APPROVED\<close> and
  the attendance record as \<open>PRESENT\<close>; with "reject" it succeeds, stores the
  justification as \<open>REJECTED\<close> and leaves the attendance table as it was. Hence, when
  the database is the one a successful \<open>justify_absence\<close> returned with that
  justification, the record is \<open>ABSENT\<close> before the decision, \<open>PRESENT\<close> after an
  approval and still \<open>ABSENT\<close> after a rejection.
\<close>

theorem validate_justification_decision:
  assumes "get_row ju_id (justifications db) jid = Some j"
    and "ju_status j = PENDING"
    and "get_row ar_id (attendance_records db) (attendance_record_id j) = Some a"
    and "get_row cs_id (sessions db) (ar_session_id a) = Some s"
    and "verify_teacher_owns_session db s tid"
    and "notifiable db a"
  shows "(lower d = ''approve'' \<longrightarrow>
            (\<exists>r. fst (validate_justification db jid tid d) = Inr r)
            \<and> get_row ju_id (justifications (snd (validate_justification db jid tid d))) jid =
                Some (j\<lparr>ju_status := APPROVED\<rparr>)
            \<and> get_row ar_id (attendance_records (snd (validate_justification db jid tid d)))
                (attendance_record_id j) = Some (a\<lparr>ar_status := PRESENT\<rparr>))
       \<and> (lower d = ''reject'' \<longrightarrow>
            (\<exists>r. fst (validate_justification db jid tid d) = Inr r)
            \<and> get_row ju_id (justifications (snd (validate_justification db jid tid d))) jid =
                Some (j\<lparr>ju_status := REJECTED\<rparr>)
            \<and> attendance_records (snd (validate_justification db jid tid d)) =
                attendance_records db)
       \<and> (justify_absence db0 student_id attendance_id c f = (Inr j, db) \<longrightarrow>
            attendance_record_id j = attendance_id \<and> ar_status a = ABSENT
            \<and> (lower d = ''approve'' \<longrightarrow>
                 map_option ar_status
                   (get_row ar_id (attendance_records (snd (validate_justification db jid tid d)))
                      attendance_id) = Some PRESENT)
            \<and> (lower d = ''reject'' \<longrightarrow>
                 map_option ar_status
                   (get_row ar_id (attendance_records (snd (validate_justification db jid tid d)))
                      attendance_id) = Some ABSENT))"
proof -
  have kj: "ju_id j = jid" using get_row_Some [OF assms(1)] by simp
  have ka: "ar_id a = attendance_record_id j" using get_row_Some [OF assms(3)] by simp
  have ap: "(\<exists>r. fst (validate_justification db jid tid d) = Inr r)
            \<and> get_row ju_id (justifications (snd (validate_justification db jid tid d))) jid =
                Some (j\<lparr>ju_status := APPROVED\<rparr>)
            \<and> get_row ar_id (attendance_records (snd (validate_justification db jid tid d)))
                (attendance_record_id j) = Some (a\<lparr>ar_status := PRESENT\<rparr>)"
    if "lower d = ''approve''"
  proof -
    from validate_justification_approve [OF assms that] obtain r ns where
      "validate_justification db jid tid d =
           (Inr r,
            db\<lparr>justifications := put_row ju_id (j\<lparr>ju_status := APPROVED\<rparr>) (justifications db),
               notifications := ns,
               attendance_records :=
                 put_row ar_id (a\<lparr>ar_status := PRESENT\<rparr>) (attendance_records db)\<rparr>)"
      by blast
    then show ?thesis
      using assms(1,3) kj ka by (simp add: get_row_put_row)
  qed
  have rj: "(\<exists>r. fst (validate_justification db jid tid d) = Inr r)
            \<and> get_row ju_id (justifications (snd (validate_justification db jid tid d))) jid =
                Some (j\<lparr>ju_status := REJECTED\<rparr>)
            \<and> attendance_records (snd (validate_justification db jid tid d)) =
                attendance_records db"
    if "lower d = ''reject''"
  proof -
    from validate_justification_reject [OF assms that] obtain r ns where
      "validate_justification db jid tid d =
           (Inr r,
            db\<lparr>justifications := put_row ju_id (j\<lparr>ju_status := REJECTED\<rparr>) (justifications db),
               notifications := ns\<rparr>)"
      by blast
    then show ?thesis
      using assms(1) kj by (simp add: get_row_put_row)
  qed
  have rt: "attendance_record_id j = attendance_id \<and> ar_status a = ABSENT"
    if "justify_absence db0 student_id attendance_id c f = (Inr j, db)"
    using justify_absence_success [OF that] assms(3) by auto
  show ?thesis
    using ap rj rt assms(3) by auto
qed


lemma lower_Approve: "lower ''Approve'' = ''approve''"
  by code_simp

lemma lower_reject: "lower ''reject'' = ''reject''"
  by code_simp

theorem validate_justification_decision_witness:
  "map_option ar_status
     (get_row ar_id (attendance_records
        (snd (validate_justification scenario_db_submitted 1 1 ''Approve''))) 1) = Some PRESENT
   \<and> map_option ju_status
     (get_row ju_id (justifications
        (snd (validate_justification scenario_db_submitted 1 1 ''Approve''))) 1) = Some APPROVED
   \<and> map_option ar_status
     (get_row ar_id (attendance_records
        (snd (validate_justification scenario_db_submitted 1 1 ''reject''))) 1) = Some ABSENT
   \<and> map_option ju_status
     (get_row ju_id (justifications
        (snd (validate_justification scenario_db_submitted 1 1 ''reject''))) 1) = Some REJECTED"
proof -
  let ?j = "\<lparr>ju_id = 1, attendance_record_id = 1, comment = Some ''sick'', file_url = None,
            ju_status = PENDING\<rparr>"
  let ?a = "(scenario_record 1 ABSENT)\<lparr>ar_justification_id := Some 1\<rparr>"
  have sub: "justify_absence scenario_db 1 1 ''sick'' None = (Inr ?j, scenario_db_submitted)"
    by (simp add: scenario_justify_absence scenario_db_submitted_def)
  have db1: "justifications scenario_db_submitted = [?j]"
    "attendance_records scenario_db_submitted =
       [?a, scenario_record 2 ABSENT, scenario_record 3 ABSENT,
        scenario_record 4 PRESENT, scenario_record 5 PRESENT]"
    "sessions scenario_db_submitted = sessions scenario_db"
    "teacher_modules scenario_db_submitted = teacher_modules scenario_db"
    "enrollments scenario_db_submitted = enrollments scenario_db"
    "students scenario_db_submitted = students scenario_db"
    "users scenario_db_submitted = users scenario_db"
    unfolding scenario_db_submitted_def by (simp_all add: scenario_justify_absence)
  have j: "get_row ju_id (justifications scenario_db_submitted) 1 = Some ?j"
    by (simp add: db1 get_row_def)
  have p: "ju_status ?j = PENDING" by simp
  have a: "get_row ar_id (attendance_records scenario_db_submitted) (attendance_record_id ?j)
      = Some ?a"
    by (simp add: db1 get_row_def scenario_record_def)
  have s: "get_row cs_id (sessions scenario_db_submitted) (ar_session_id ?a)
      = Some scenario_session"
    by (simp add: db1 scenario_get_session scenario_record_def)
  have o: "verify_teacher_owns_session scenario_db_submitted scenario_session 1"
    by (simp add: verify_teacher_owns_session_def db1 scenario_db_def scenario_session_def
        get_row_def)
  have n: "notifiable scenario_db_submitted ?a"
    by (simp add: notifiable_def db1 scenario_db_def scenario_record_def
        scenario_enrollment_def get_row_def)
  note ap = validate_justification_decision [OF j p a s o n, of "''Approve''"
      scenario_db 1 1 "''sick''" None]
  note rj = validate_justification_decision [OF j p a s o n, of "''reject''"
      scenario_db 1 1 "''sick''" None]
  show ?thesis
    using ap rj sub a by (auto simp: lower_Approve lower_reject scenario_record_def)
qed

section \<open>Bulk operations\<close>













end
